theory Spec2Isabelle
  imports Main "HOL-Library.AList" "HOL-Library.Sublist"
begin

section \<open>Python values\<close>

text \<open>
  The values that flow through \<^verbatim>\<open>llm_wrapper.py\<close> and \<^verbatim>\<open>app.py\<close> are what
  \<^verbatim>\<open>json.loads\<close> produces and what \<^verbatim>\<open>json.dumps\<close> accepts: \<^verbatim>\<open>None\<close>, booleans, integers,
  floats, strings, lists and dictionaries with string keys. A dictionary is an association
  list in insertion order (Python dictionaries keep it, and \<^verbatim>\<open>str\<close> of a dictionary shows it);
  a real dictionary has pairwise distinct keys, and lookups read the first entry of a key.

  A float is carried by the text that \<^verbatim>\<open>repr\<close> gives it (\<^verbatim>\<open>0.7\<close>, \<^verbatim>\<open>1e-05\<close>, \<^verbatim>\<open>nan\<close>): the
  program never computes with a float, it only stores, forwards and prints them.
  A string is a list of characters with code points below 256.
\<close>

type_synonym pyfloat = string

datatype json =
    JNull
  | JBool bool
  | JInt int
  | JFloat pyfloat
  | JStr string
  | JArr "json list"
  | JObj "(string \<times> json) list"

type_synonym pydict = "(string \<times> json) list"

subsection \<open>The builtins \<^verbatim>\<open>str\<close> and \<^verbatim>\<open>repr\<close>\<close>

definition digit_char :: "nat \<Rightarrow> char" where
  "digit_char n = ''0123456789abcdef'' ! n"

fun str_nat :: "nat \<Rightarrow> string" where
  "str_nat n = (if n < 10 then [digit_char n] else str_nat (n div 10) @ [digit_char (n mod 10)])"

definition str_int :: "int \<Rightarrow> string" where
  "str_int i = (if i < 0 then CHR ''-'' # str_nat (nat (- i)) else str_nat (nat i))"

definition py_printable :: "char \<Rightarrow> bool" where
  \<comment> \<open>\<^verbatim>\<open>str.isprintable\<close> on the code points below 256\<close>
  "py_printable c =
     (let n = (of_char c :: nat) in (32 \<le> n \<and> n < 127) \<or> (161 \<le> n \<and> n \<noteq> 173))"

definition repr_char :: "char \<Rightarrow> char \<Rightarrow> string" where
  \<comment> \<open>one character of a string literal quoted with \<open>q\<close>\<close>
  "repr_char q c =
     (if c = q \<or> c = CHR 0x5C then [CHR 0x5C, c]
      else if c = CHR 0x09 then [CHR 0x5C, CHR ''t'']
      else if c = CHR 0x0A then [CHR 0x5C, CHR ''n'']
      else if c = CHR 0x0D then [CHR 0x5C, CHR ''r'']
      else if py_printable c then [c]
      else [CHR 0x5C, CHR ''x'', digit_char (of_char c div 16), digit_char (of_char c mod 16)])"

definition repr_str :: "string \<Rightarrow> string" where
  \<comment> \<open>single quotes, unless the string holds a single quote and no double quote\<close>
  "repr_str s =
     (let q = (if CHR 0x27 \<in> set s \<and> CHR 0x22 \<notin> set s then CHR 0x22 else CHR 0x27)
      in [q] @ concat (map (repr_char q) s) @ [q])"

fun join :: "string \<Rightarrow> string list \<Rightarrow> string" where
  "join sep [] = []"
| "join sep [x] = x"
| "join sep (x # y # ys) = x @ sep @ join sep (y # ys)"

fun py_repr :: "json \<Rightarrow> string" where
  "py_repr JNull = ''None''"
| "py_repr (JBool b) = (if b then ''True'' else ''False'')"
| "py_repr (JInt i) = str_int i"
| "py_repr (JFloat r) = r"
| "py_repr (JStr s) = repr_str s"
| "py_repr (JArr xs) = ''['' @ join '', '' (map py_repr xs) @ '']''"
| "py_repr (JObj kvs) =
     ''{'' @ join '', '' (map (\<lambda>(k, v). repr_str k @ '': '' @ py_repr v) kvs) @ ''}''"

definition py_str :: "json \<Rightarrow> string" where
  \<comment> \<open>\<^verbatim>\<open>str(x)\<close>: a string is itself, everything else prints as its \<^verbatim>\<open>repr\<close>\<close>
  "py_str v = (case v of JStr s \<Rightarrow> s | _ \<Rightarrow> py_repr v)"

subsection \<open>Exceptions\<close>

text \<open>
  The exception classes the two files catch or can meet. \<open>Timeout\<close> and \<open>HTTPError\<close> are
  subclasses of \<^verbatim>\<open>requests.exceptions.RequestException\<close>; \<open>RequestException\<close> stands for
  every other instance of that class (connection failures, and the decoding error of
  \<^verbatim>\<open>Response.json\<close> in the versions of requests where it derives from it);
  \<open>JSONDecodeError\<close> is \<^verbatim>\<open>json.JSONDecodeError\<close> raised outside that hierarchy;
  \<open>OtherException\<close> is any further subclass of \<^verbatim>\<open>Exception\<close>. Each carries the text of
  \<^verbatim>\<open>str(e)\<close>; an \<open>HTTPError\<close> carries the status code and body of its response first,
  a \<open>KeyError\<close> the missing key. The texts of the interpreter's own \<open>TypeError\<close>s are
  those of CPython 3.11. A \<open>ValidationError\<close> is the one of pydantic 1, on which the
  classes of langchain are built: it carries the name of the model and, for each rejected
  field, the name of the field and the complaint.
\<close>

datatype exc =
    Timeout string
  | HTTPError int string string
  | RequestException string
  | JSONDecodeError string
  | TypeError string
  | KeyError string
  | AttributeError string
  | ValueError string
  | ValidationError string "(string \<times> string) list"
  | OtherException string

definition exc_str :: "exc \<Rightarrow> string" where
  "exc_str e =
     (case e of
        Timeout m \<Rightarrow> m
      | HTTPError code body m \<Rightarrow> m
      | RequestException m \<Rightarrow> m
      | JSONDecodeError m \<Rightarrow> m
      | TypeError m \<Rightarrow> m
      | KeyError k \<Rightarrow> repr_str k
      | AttributeError m \<Rightarrow> m
      | ValueError m \<Rightarrow> m
      | ValidationError model errors \<Rightarrow>
          str_int (int (length errors)) @ '' validation error''
          @ (if length errors = 1 then [] else ''s'') @ '' for '' @ model
          @ concat (map (\<lambda>(loc, msg). [CHR 0x0A] @ loc @ [CHR 0x0A] @ ''  '' @ msg) errors)
      | OtherException m \<Rightarrow> m)"

definition is_request_exception :: "exc \<Rightarrow> bool" where
  \<comment> \<open>\<^verbatim>\<open>isinstance(e, requests.exceptions.RequestException)\<close>\<close>
  "is_request_exception e =
     (case e of Timeout _ \<Rightarrow> True | HTTPError _ _ _ \<Rightarrow> True | RequestException _ \<Rightarrow> True
      | _ \<Rightarrow> False)"

definition and_then :: "exc + 'a \<Rightarrow> ('a \<Rightarrow> exc + 'b) \<Rightarrow> exc + 'b" where
  \<comment> \<open>sequencing: an exception raised by the first step leaves the function\<close>
  "and_then r f = (case r of Inl e \<Rightarrow> Inl e | Inr x \<Rightarrow> f x)"

subsection \<open>The operators \<^verbatim>\<open>in\<close> and \<^verbatim>\<open>[]\<close> with a string operand\<close>

definition type_name :: "json \<Rightarrow> string" where
  "type_name v =
     (case v of JNull \<Rightarrow> ''NoneType'' | JBool _ \<Rightarrow> ''bool'' | JInt _ \<Rightarrow> ''int''
      | JFloat _ \<Rightarrow> ''float'' | JStr _ \<Rightarrow> ''str'' | JArr _ \<Rightarrow> ''list'' | JObj _ \<Rightarrow> ''dict'')"

fun py_substring :: "string \<Rightarrow> string \<Rightarrow> bool" where
  "py_substring k [] = (k = [])"
| "py_substring k (c # cs) = (prefix k (c # cs) \<or> py_substring k cs)"

definition py_contains :: "string \<Rightarrow> json \<Rightarrow> exc + bool" where
  \<comment> \<open>\<^verbatim>\<open>k in v\<close>: a key of a dictionary, an element of a list, a substring of a string;
      the other types are not containers\<close>
  "py_contains k v =
     (case v of
        JObj kvs \<Rightarrow> Inr (k \<in> set (map fst kvs))
      | JArr xs \<Rightarrow> Inr (JStr k \<in> set xs)
      | JStr s \<Rightarrow> Inr (py_substring k s)
      | _ \<Rightarrow> Inl (TypeError (''argument of type '' @ repr_str (type_name v) @ '' is not iterable'')))"

definition py_getitem :: "json \<Rightarrow> string \<Rightarrow> exc + json" where
  \<comment> \<open>\<^verbatim>\<open>v[k]\<close> with a string \<open>k\<close>: only a dictionary can be indexed by a string\<close>
  "py_getitem v k =
     (case v of
        JObj kvs \<Rightarrow> (case map_of kvs k of Some x \<Rightarrow> Inr x | None \<Rightarrow> Inl (KeyError k))
      | JArr xs \<Rightarrow> Inl (TypeError ''list indices must be integers or slices, not str'')
      | JStr s \<Rightarrow> Inl (TypeError (''string indices must be integers, not '' @ repr_str ''str''))
      | _ \<Rightarrow> Inl (TypeError (repr_str (type_name v) @ '' object is not subscriptable'')))"

type_synonym kwargs = "(string \<times> json) list"

definition bind_kwargs :: "string \<Rightarrow> string list \<Rightarrow> kwargs \<Rightarrow> exc + kwargs" where
  \<comment> \<open>Argument binding of \<^verbatim>\<open>def f(self, a, b, **kwargs)\<close> at a call \<^verbatim>\<open>f(x, y, **kw)\<close>: a keyword
      that names a parameter already bound by position is rejected, the rest is \<^verbatim>\<open>kwargs\<close>.\<close>
  "bind_kwargs fname params kw =
     (case filter (\<lambda>k. k \<in> set params) (map fst kw) of
        [] \<Rightarrow> Inr kw
      | k # _ \<Rightarrow> Inl (TypeError (fname @ ''() got multiple values for argument '' @ repr_str k)))"

section \<open>\<^verbatim>\<open>llm_wrapper.py\<close>: class \<^verbatim>\<open>E2ENetworksLLM\<close>\<close>

record llm =
  endpoint_url :: string
  api_key :: string
  model_name :: string
  temperature :: pyfloat
  max_tokens :: int
  top_p :: pyfloat
  timeout :: int

subsection \<open>Construction\<close>

text \<open>
  The named arguments of \<^verbatim>\<open>__init__\<close> with their defaults, and the further keywords it is
  given; the process environment is a map from variable names to values, as \<^verbatim>\<open>os.getenv\<close>
  reads it.

  The first statement of the constructor, \<^verbatim>\<open>super().__init__(**kwargs)\<close>, runs the constructor
  of the base class, pydantic's through langchain's \<^verbatim>\<open>LLM\<close>. It validates the fields that the
  class declares (lines 20 to 26) against the keywords it receives; of that validation the
  embedding has the check that decides here: a field declared without a default and absent
  from the keywords is reported as missing. \<^verbatim>\<open>endpoint_url\<close> and \<^verbatim>\<open>api_key\<close> are declared
  without a default, and as named parameters of \<^verbatim>\<open>__init__\<close> they are never among its
  further keywords.

  As written, line 28 has a stray character \<^verbatim>\<open>l\<close> after the opening parenthesis of the
  parameter list, with which the file does not parse; the embedding reads the parameter
  list without it.
\<close>

record init_args =
  arg_endpoint_url :: "string option"
  arg_api_key :: "string option"
  arg_model_name :: string
  arg_temperature :: pyfloat
  arg_max_tokens :: int
  arg_top_p :: pyfloat
  arg_timeout :: int

definition default_args :: init_args where
  "default_args =
     \<lparr>arg_endpoint_url = None, arg_api_key = None, arg_model_name = ''e2e-llm'',
      arg_temperature = ''0.7'', arg_max_tokens = 1000, arg_top_p = ''0.9'', arg_timeout = 30\<rparr>"

type_synonym environ = "string \<Rightarrow> string option"

definition truthy :: "string option \<Rightarrow> bool" where
  \<comment> \<open>truth value of an optional string: \<^verbatim>\<open>None\<close> and the empty string are false\<close>
  "truthy a = (case a of None \<Rightarrow> False | Some s \<Rightarrow> s \<noteq> [])"

definition py_or :: "string option \<Rightarrow> string option \<Rightarrow> string option" where
  \<comment> \<open>\<^verbatim>\<open>a or b\<close>\<close>
  "py_or a b = (if truthy a then a else b)"

definition required_fields :: "string list" where
  \<comment> \<open>the fields of the class declared without a default\<close>
  "required_fields = [''endpoint_url'', ''api_key'']"

definition base_init :: "kwargs \<Rightarrow> exc + unit" where
  \<comment> \<open>\<^verbatim>\<open>super().__init__(**kwargs)\<close>\<close>
  "base_init kw =
     (case filter (\<lambda>f. f \<notin> set (map fst kw)) required_fields of
        [] \<Rightarrow> Inr ()
      | missing \<Rightarrow>
          Inl (ValidationError ''E2ENetworksLLM''
                 (map (\<lambda>f. (f, ''field required (type=value_error.missing)'')) missing)))"

definition llm_init :: "environ \<Rightarrow> init_args \<Rightarrow> kwargs \<Rightarrow> exc + llm" where
  "llm_init env a kw =
     and_then
       (bind_kwargs ''E2ENetworksLLM.__init__''
          [''self'', ''endpoint_url'', ''api_key'', ''model_name'', ''temperature'', ''max_tokens'',
           ''top_p'', ''timeout''] kw)
       (\<lambda>kwargs. and_then (base_init kwargs) (\<lambda>_.
          let url = py_or (arg_endpoint_url a) (env ''E2E_ENDPOINT_URL'');
              key = py_or (arg_api_key a) (env ''E2E_API_KEY'')
          in if \<not> truthy url then
               Inl (ValueError ''E2E endpoint URL must be provided via parameter or E2E_ENDPOINT_URL environment variable'')
             else if \<not> truthy key then
               Inl (ValueError ''API key must be provided via parameter or E2E_API_KEY environment variable'')
             else
               Inr \<lparr>endpoint_url = (case url of Some u \<Rightarrow> u | None \<Rightarrow> []),
                    api_key = (case key of Some k \<Rightarrow> k | None \<Rightarrow> []),
                    model_name = arg_model_name a, temperature = arg_temperature a,
                    max_tokens = arg_max_tokens a, top_p = arg_top_p a,
                    timeout = arg_timeout a\<rparr>))"


subsection \<open>Headers and payload\<close>

definition get_headers :: "llm \<Rightarrow> (string \<times> string) list" where
  "get_headers self =
     [(''Content-Type'', ''application/json''),
      (''Authorization'', ''Bearer '' @ api_key self),
      (''Accept'', ''application/json'')]"

definition kwargs_get :: "kwargs \<Rightarrow> string \<Rightarrow> json \<Rightarrow> json" where
  \<comment> \<open>\<^verbatim>\<open>kwargs.get(key, default)\<close>\<close>
  "kwargs_get kw k d = (case map_of kw k of Some v \<Rightarrow> v | None \<Rightarrow> d)"

definition add_extra :: "pydict \<Rightarrow> string \<times> json \<Rightarrow> pydict" where
  \<comment> \<open>the body of the loop over \<^verbatim>\<open>kwargs.items()\<close>\<close>
  "add_extra payload kv =
     (if fst kv \<notin> set (map fst payload) \<and> fst kv \<notin> set [''temperature'', ''max_tokens'', ''top_p'']
      then AList.update (fst kv) (snd kv) payload else payload)"

definition build_payload_body :: "llm \<Rightarrow> string \<Rightarrow> string list option \<Rightarrow> kwargs \<Rightarrow> pydict" where
  "build_payload_body self prompt stop kw =
     (let payload =
            [(''prompt'', JStr prompt),
             (''temperature'', kwargs_get kw ''temperature'' (JFloat (temperature self))),
             (''max_tokens'', kwargs_get kw ''max_tokens'' (JInt (max_tokens self))),
             (''top_p'', kwargs_get kw ''top_p'' (JFloat (top_p self))),
             (''model'', JStr (model_name self))];
          payload =
            (case stop of
               None \<Rightarrow> payload
             | Some xs \<Rightarrow> if xs \<noteq> [] then AList.update ''stop'' (JArr (map JStr xs)) payload
                          else payload)
      in foldl add_extra payload kw)"

definition build_payload :: "llm \<Rightarrow> string \<Rightarrow> string list option \<Rightarrow> kwargs \<Rightarrow> exc + pydict" where
  \<comment> \<open>\<^verbatim>\<open>self._build_payload(prompt, stop, **kw)\<close>: binding of the keywords, then the body\<close>
  "build_payload self prompt stop kw =
     and_then (bind_kwargs ''E2ENetworksLLM._build_payload'' [''self'', ''prompt'', ''stop''] kw)
       (\<lambda>kwargs. Inr (build_payload_body self prompt stop kwargs))"

subsection \<open>The response normalizer\<close>

definition text_fields :: "string list" where
  "text_fields =
     [''response'', ''text'', ''generated_text'', ''output'', ''completion'', ''answer'', ''result'']"

definition first_choice :: "json \<Rightarrow> exc + json option" where
  \<comment> \<open>the condition of line 163 and, where it holds, \<^verbatim>\<open>result["choices"][0]\<close>\<close>
  "first_choice result =
     and_then (py_contains ''choices'' result) (\<lambda>has.
       if \<not> has then Inr None
       else and_then (py_getitem result ''choices'') (\<lambda>choices.
         case choices of JArr (choice # _) \<Rightarrow> Inr (Some choice) | _ \<Rightarrow> Inr None))"

definition from_choice :: "json \<Rightarrow> exc + json option" where
  \<comment> \<open>lines 165 to 168: \<open>Some\<close> what a \<^verbatim>\<open>return\<close> yields, \<open>None\<close> when neither branch is taken\<close>
  "from_choice choice =
     and_then (py_contains ''text'' choice) (\<lambda>has_text.
       if has_text then and_then (py_getitem choice ''text'') (\<lambda>t. Inr (Some t))
       else and_then (py_contains ''message'' choice) (\<lambda>has_message.
         if \<not> has_message then Inr None
         else and_then (py_getitem choice ''message'') (\<lambda>message.
           and_then (py_contains ''content'' message) (\<lambda>has_content.
             if \<not> has_content then Inr None
             else and_then (py_getitem message ''content'') (\<lambda>c. Inr (Some c))))))"

fun probe_fields :: "json \<Rightarrow> string list \<Rightarrow> exc + json" where
  \<comment> \<open>the loop over \<^verbatim>\<open>text_fields\<close>, then the last line of the function\<close>
  "probe_fields result [] = Inr (JStr (py_str result))"
| "probe_fields result (field # rest) =
     and_then (py_contains field result) (\<lambda>has.
       if has then and_then (py_getitem result field) (\<lambda>v. Inr (JStr (py_str v)))
       else probe_fields result rest)"

definition extract_generated_text :: "json \<Rightarrow> exc + json" where
  "extract_generated_text result =
     and_then (first_choice result) (\<lambda>c.
       case c of
         None \<Rightarrow> probe_fields result text_fields
       | Some choice \<Rightarrow>
           and_then (from_choice choice) (\<lambda>r.
             case r of Some v \<Rightarrow> Inr v | None \<Rightarrow> probe_fields result text_fields))"

subsection \<open>The call and the batch\<close>

text \<open>
  \<^verbatim>\<open>requests.post\<close> is the step of the outside world: from a state of the world and the
  request it yields either the exception raised (a timeout, a transport failure) or the
  response received, and the next state. Of a response the program reads the status code,
  the body as text, and the body decoded by \<^verbatim>\<open>response.json()\<close>, which is the decoded value
  or the exception of the decoder; \<^verbatim>\<open>raise_for_status\<close> also reads the reason phrase and the
  URL for its message.
\<close>

record request =
  req_url :: string
  req_headers :: "(string \<times> string) list"
  req_json :: pydict
  req_timeout :: int

record response =
  resp_status_code :: int
  resp_reason :: string
  resp_url :: string
  resp_text :: string
  resp_json :: "exc + json"

type_synonym 'w remote = "'w \<Rightarrow> request \<Rightarrow> (exc + response) \<times> 'w"

definition raise_for_status :: "response \<Rightarrow> exc + unit" where
  \<comment> \<open>the method of requests: an exception for the statuses from 400 to 599, nothing otherwise\<close>
  "raise_for_status r =
     (if 400 \<le> resp_status_code r \<and> resp_status_code r < 500 then
        Inl (HTTPError (resp_status_code r) (resp_text r)
               (str_int (resp_status_code r) @ '' Client Error: '' @ resp_reason r
                @ '' for url: '' @ resp_url r))
      else if 500 \<le> resp_status_code r \<and> resp_status_code r < 600 then
        Inl (HTTPError (resp_status_code r) (resp_text r)
               (str_int (resp_status_code r) @ '' Server Error: '' @ resp_reason r
                @ '' for url: '' @ resp_url r))
      else Inr ())"

definition read_response :: "response \<Rightarrow> exc + json" where
  \<comment> \<open>lines 89 to 96 of \<^verbatim>\<open>_call\<close>\<close>
  "read_response r =
     and_then (raise_for_status r) (\<lambda>_.
       and_then (resp_json r) (\<lambda>result. extract_generated_text result))"

definition error_msg :: "llm \<Rightarrow> exc \<Rightarrow> string" where
  \<comment> \<open>the \<^verbatim>\<open>except\<close> clauses of \<^verbatim>\<open>_call\<close>, first matching class first\<close>
  "error_msg self e =
     (case e of
        Timeout _ \<Rightarrow> ''Request to E2E LLM timed out after '' @ str_int (timeout self) @ '' seconds''
      | HTTPError code body _ \<Rightarrow> ''HTTP error '' @ str_int code @ '': '' @ body
      | RequestException m \<Rightarrow> ''Request failed: '' @ m
      | JSONDecodeError m \<Rightarrow> ''Failed to parse JSON response: '' @ m
      | _ \<Rightarrow> ''Unexpected error: '' @ exc_str e)"

definition call ::
  "'w remote \<Rightarrow> llm \<Rightarrow> string \<Rightarrow> string list option \<Rightarrow> kwargs \<Rightarrow> 'w \<Rightarrow> (exc + json) \<times> 'w" where
  \<comment> \<open>\<^verbatim>\<open>self._call(prompt, stop, run_manager, **kw)\<close>; \<open>Inl\<close> is an exception that leaves the method\<close>
  "call remote self prompt stop kw w =
     (case bind_kwargs ''E2ENetworksLLM._call'' [''self'', ''prompt'', ''stop'', ''run_manager''] kw of
        Inl e \<Rightarrow> (Inl e, w)
      | Inr kwargs \<Rightarrow>
          (case build_payload self prompt stop kwargs of
             Inl e \<Rightarrow> (Inl e, w)
           | Inr payload \<Rightarrow>
               (case remote w \<lparr>req_url = endpoint_url self, req_headers = get_headers self,
                               req_json = payload, req_timeout = timeout self\<rparr> of
                  (posted, w') \<Rightarrow>
                    (case and_then posted read_response of
                       Inl e \<Rightarrow> (Inr (JStr (''Error: '' @ error_msg self e)), w')
                     | Inr generated_text \<Rightarrow> (Inr generated_text, w')))))"

text \<open>
  \<^verbatim>\<open>Generation\<close> and \<^verbatim>\<open>LLMResult\<close> are langchain's models. \<^verbatim>\<open>Generation(text=response)\<close> validates
  its field of type \<^verbatim>\<open>str\<close> as pydantic 1 does: a string is kept, a number or a boolean becomes
  its \<^verbatim>\<open>str\<close>, and \<^verbatim>\<open>None\<close>, a list or a dictionary is rejected with a \<open>ValidationError\<close>.
\<close>

datatype generation = Generation string

datatype llm_result = LLMResult "generation list list"

definition make_generation :: "json \<Rightarrow> exc + generation" where
  \<comment> \<open>\<^verbatim>\<open>Generation(text=response)\<close>\<close>
  "make_generation response =
     (case response of
        JStr s \<Rightarrow> Inr (Generation s)
      | JNull \<Rightarrow>
          Inl (ValidationError ''Generation''
                 [(''text'', ''none is not an allowed value (type=type_error.none.not_allowed)'')])
      | JArr _ \<Rightarrow>
          Inl (ValidationError ''Generation'' [(''text'', ''str type expected (type=type_error.str)'')])
      | JObj _ \<Rightarrow>
          Inl (ValidationError ''Generation'' [(''text'', ''str type expected (type=type_error.str)'')])
      | _ \<Rightarrow> Inr (Generation (py_str response)))"

fun generate_loop ::
  "'w remote \<Rightarrow> llm \<Rightarrow> string list option \<Rightarrow> kwargs \<Rightarrow> string list \<Rightarrow> 'w \<Rightarrow> generation list list
     \<Rightarrow> (exc + generation list list) \<times> 'w" where
  "generate_loop remote self stop kw [] w generations = (Inr generations, w)"
| "generate_loop remote self stop kw (prompt # prompts) w generations =
     (case call remote self prompt stop kw w of
        (Inl e, w') \<Rightarrow> (Inl e, w')
      | (Inr response, w') \<Rightarrow>
          (case make_generation response of
             Inl e \<Rightarrow> (Inl e, w')
           | Inr generation \<Rightarrow>
               generate_loop remote self stop kw prompts w' (generations @ [[generation]])))"

definition generate ::
  "'w remote \<Rightarrow> llm \<Rightarrow> string list \<Rightarrow> string list option \<Rightarrow> kwargs \<Rightarrow> 'w \<Rightarrow> (exc + llm_result) \<times> 'w" where
  "generate remote self prompts stop kw w =
     (case bind_kwargs ''E2ENetworksLLM._generate'' [''self'', ''prompts'', ''stop'', ''run_manager''] kw of
        Inl e \<Rightarrow> (Inl e, w)
      | Inr kwargs \<Rightarrow>
          (case generate_loop remote self stop kwargs prompts w [] of
             (Inl e, w') \<Rightarrow> (Inl e, w')
           | (Inr generations, w') \<Rightarrow> (Inr (LLMResult generations), w')))"

section \<open>\<^verbatim>\<open>app.py\<close>: class \<^verbatim>\<open>E2ELLM\<close>\<close>

record app_llm =
  app_endpoint_url :: string
  app_api_key :: string
  app_model_name :: string
  app_temperature :: pyfloat
  app_max_tokens :: int

definition getenv_default :: "environ \<Rightarrow> string \<Rightarrow> string \<Rightarrow> string" where
  \<comment> \<open>\<^verbatim>\<open>os.getenv(name, default)\<close>\<close>
  "getenv_default env name d = (case env name of Some v \<Rightarrow> v | None \<Rightarrow> d)"

definition app_init :: "environ \<Rightarrow> app_llm" where
  \<comment> \<open>\<^verbatim>\<open>E2ELLM.__init__\<close>: the class defaults, then the two values of the environment\<close>
  "app_init env =
     \<lparr>app_endpoint_url = getenv_default env ''E2E_ENDPOINT_URL'' [],
      app_api_key = getenv_default env ''E2E_API_KEY'' [],
      app_model_name = ''e2e-llm'', app_temperature = ''0.7'', app_max_tokens = 1000\<rparr>"

definition app_payload :: "app_llm \<Rightarrow> string \<Rightarrow> string list option \<Rightarrow> pydict" where
  "app_payload self prompt stop =
     [(''prompt'', JStr prompt),
      (''temperature'', JFloat (app_temperature self)),
      (''max_tokens'', JInt (app_max_tokens self)),
      (''stop'', (case stop of None \<Rightarrow> JNull | Some xs \<Rightarrow> JArr (map JStr xs)))]"

definition dict_get :: "json \<Rightarrow> string \<Rightarrow> json \<Rightarrow> exc + json" where
  \<comment> \<open>the method call \<^verbatim>\<open>result.get(key, default)\<close>: only a dictionary has the method\<close>
  "dict_get v k d =
     (case v of
        JObj kvs \<Rightarrow> Inr (case map_of kvs k of Some x \<Rightarrow> x | None \<Rightarrow> d)
      | _ \<Rightarrow> Inl (AttributeError (repr_str (type_name v) @ '' object has no attribute ''
                                   @ repr_str ''get'')))"

definition app_extract :: "json \<Rightarrow> exc + json" where
  \<comment> \<open>line 62; the inner \<^verbatim>\<open>get\<close> is an argument of the outer one and is evaluated first\<close>
  "app_extract result =
     and_then (dict_get result ''text'' (JStr ''No response received''))
       (\<lambda>d. dict_get result ''response'' d)"

definition app_except :: "exc \<Rightarrow> exc + json" where
  \<comment> \<open>the two \<^verbatim>\<open>except\<close> clauses of \<^verbatim>\<open>E2ELLM._call\<close>; any other exception leaves the method\<close>
  "app_except e =
     (if is_request_exception e then Inr (JStr (''Error calling E2E LLM: '' @ exc_str e))
      else case e of
             JSONDecodeError m \<Rightarrow> Inr (JStr (''Error parsing response: '' @ m))
           | _ \<Rightarrow> Inl e)"

definition app_read_response :: "response \<Rightarrow> exc + json" where
  \<comment> \<open>lines 59 to 62 of \<^verbatim>\<open>E2ELLM._call\<close>\<close>
  "app_read_response r =
     and_then (raise_for_status r) (\<lambda>_.
       and_then (resp_json r) (\<lambda>result. app_extract result))"

definition app_call ::
  "'w remote \<Rightarrow> app_llm \<Rightarrow> string \<Rightarrow> string list option \<Rightarrow> 'w \<Rightarrow> (exc + json) \<times> 'w" where
  \<comment> \<open>\<^verbatim>\<open>E2ELLM._call\<close>; its keyword arguments are accepted and never read\<close>
  "app_call remote self prompt stop w =
     (case remote w \<lparr>req_url = app_endpoint_url self,
                     req_headers = [(''Content-Type'', ''application/json''),
                                    (''Authorization'', ''Bearer '' @ app_api_key self)],
                     req_json = app_payload self prompt stop, req_timeout = 30\<rparr> of
        (posted, w') \<Rightarrow>
          (case and_then posted app_read_response of
             Inl e \<Rightarrow> (app_except e, w')
           | Inr v \<Rightarrow> (Inr v, w')))"

section \<open>The statements of the specification\<close>

text \<open>
  The priority order of the response normalizer as the specification words it: the first
  element of a non-empty \<^verbatim>\<open>choices\<close> list gives its \<^verbatim>\<open>text\<close>, else the \<^verbatim>\<open>content\<close> of its
  \<^verbatim>\<open>message\<close>; otherwise the first field present among seven names, as a string; otherwise
  the string form of the whole object. A value that is not an object has no fields.
\<close>

definition obj_field :: "json \<Rightarrow> string \<Rightarrow> json option" where
  "obj_field v k = (case v of JObj kvs \<Rightarrow> map_of kvs k | _ \<Rightarrow> None)"

definition spec_choice_text :: "pydict \<Rightarrow> json option" where
  "spec_choice_text obj =
     (case map_of obj ''choices'' of
        Some (JArr (c # _)) \<Rightarrow>
          (case obj_field c ''text'' of
             Some t \<Rightarrow> Some t
           | None \<Rightarrow>
               (case obj_field c ''message'' of
                  Some m \<Rightarrow> obj_field m ''content''
                | None \<Rightarrow> None))
      | _ \<Rightarrow> None)"

fun spec_first_present :: "pydict \<Rightarrow> string list \<Rightarrow> json option" where
  "spec_first_present obj [] = None"
| "spec_first_present obj (k # ks) =
     (case map_of obj k of Some v \<Rightarrow> Some v | None \<Rightarrow> spec_first_present obj ks)"

definition spec_field_order :: "string list" where
  "spec_field_order =
     [''response'', ''text'', ''generated_text'', ''output'', ''completion'', ''answer'', ''result'']"

definition spec_extract :: "pydict \<Rightarrow> json" where
  "spec_extract obj =
     (case spec_choice_text obj of
        Some v \<Rightarrow> v
      | None \<Rightarrow>
          (case spec_first_present obj spec_field_order of
             Some v \<Rightarrow> JStr (py_str v)
           | None \<Rightarrow> JStr (py_str (JObj obj))))"


section \<open>Notions used in the statements\<close>

text \<open>
  Derived from the code above: when a set of keywords can be bound, and the payload at the
  start of the loop over the keywords.
\<close>

definition binds :: "string list \<Rightarrow> kwargs \<Rightarrow> bool" where
  \<comment> \<open>no keyword of \<open>kw\<close> names one of the parameters\<close>
  "binds params kw = (\<forall>k \<in> set params. map_of kw k = None)"

definition base_payload :: "llm \<Rightarrow> string \<Rightarrow> string list option \<Rightarrow> kwargs \<Rightarrow> pydict" where
  \<comment> \<open>the dictionary of \<^verbatim>\<open>_build_payload\<close> when its loop starts\<close>
  "base_payload self prompt stop kw =
     [(''prompt'', JStr prompt),
      (''temperature'', kwargs_get kw ''temperature'' (JFloat (temperature self))),
      (''max_tokens'', kwargs_get kw ''max_tokens'' (JInt (max_tokens self))),
      (''top_p'', kwargs_get kw ''top_p'' (JFloat (top_p self))),
      (''model'', JStr (model_name self))]
     @ (case stop of
          None \<Rightarrow> []
        | Some xs \<Rightarrow> if xs \<noteq> [] then [(''stop'', JArr (map JStr xs))] else [])"

subsection \<open>Concrete inputs\<close>

text \<open>
  An environment without the two variables, an instance with the defaults of the class, and
  remote endpoints: one on which every request times out; one that answers every request
  with status 429 and a body that is not JSON; one that answers with status 300 and a JSON
  body; and one that counts its requests and answers them with a completion, the second
  request excepted, which it answers with a first choice whose text is \<^verbatim>\<open>null\<close>.
\<close>

definition no_environ :: environ where
  "no_environ name = None"

definition example_llm :: llm where
  "example_llm =
     \<lparr>endpoint_url = ''https://llm.example/generate'', api_key = ''secret'',
      model_name = ''e2e-llm'', temperature = ''0.7'', max_tokens = 1000, top_p = ''0.9'',
      timeout = 30\<rparr>"

definition quoted :: "string \<Rightarrow> string" where
  \<comment> \<open>a string between double quotes, for the text of a JSON body\<close>
  "quoted s = [CHR 0x22] @ s @ [CHR 0x22]"

definition timing_out :: "unit remote" where
  "timing_out w req = (Inl (Timeout ''Read timed out.''), w)"

definition rate_limited :: "unit remote" where
  "rate_limited w req =
     (Inr \<lparr>resp_status_code = 429, resp_reason = ''Too Many Requests'', resp_url = req_url req,
           resp_text = ''rate limited'',
           resp_json = Inl (RequestException ''Expecting value: line 1 column 1 (char 0)'')\<rparr>, w)"

definition multiple_choices :: "unit remote" where
  "multiple_choices w req =
     (Inr \<lparr>resp_status_code = 300, resp_reason = ''Multiple Choices'', resp_url = req_url req,
           resp_text = ''{'' @ quoted ''response'' @ '': '' @ quoted ''pick one'' @ ''}'',
           resp_json = Inr (JObj [(''response'', JStr ''pick one'')])\<rparr>, w)"

definition null_text_second :: "nat remote" where
  "null_text_second n req =
     (if n = 1 then
        Inr \<lparr>resp_status_code = 200, resp_reason = ''OK'', resp_url = req_url req,
             resp_text = ''{'' @ quoted ''choices'' @ '': [{'' @ quoted ''text'' @ '': null}]}'',
             resp_json = Inr (JObj [(''choices'', JArr [JObj [(''text'', JNull)]])])\<rparr>
      else
        Inr \<lparr>resp_status_code = 200, resp_reason = ''OK'', resp_url = req_url req,
             resp_text = ''{'' @ quoted ''response'' @ '': '' @ quoted ''ok'' @ ''}'',
             resp_json = Inr (JObj [(''response'', JStr ''ok'')])\<rparr>,
      n + 1)"

section \<open>Auxiliary facts\<close>

subsection \<open>Sequencing and the operators on objects\<close>

lemma and_then_Inr: "and_then (Inr x) f = f x"
  by (simp add: and_then_def)

lemma and_then_Inl: "and_then (Inl e) f = Inl e"
  by (simp add: and_then_def)

lemma has_key: "(k \<in> set (map fst pl)) = (map_of pl k \<noteq> None)"
  by (simp add: map_of_eq_None_iff)

lemma contains_obj: "py_contains k (JObj kvs) = Inr (map_of kvs k \<noteq> None)"
  by (simp add: py_contains_def map_of_eq_None_iff)

lemma getitem_obj:
  "py_getitem (JObj kvs) k = (case map_of kvs k of Some x \<Rightarrow> Inr x | None \<Rightarrow> Inl (KeyError k))"
  by (simp add: py_getitem_def)

subsection \<open>The normalizer on objects\<close>

lemma first_choice_obj:
  "first_choice (JObj obj) =
     Inr (case map_of obj ''choices'' of Some (JArr (c # _)) \<Rightarrow> Some c | _ \<Rightarrow> None)"
  by (auto simp add: first_choice_def contains_obj getitem_obj and_then_Inr
      split: option.splits json.splits list.splits)

lemma probe_fields_obj:
  "probe_fields (JObj obj) ks =
     Inr (case spec_first_present obj ks of
            Some v \<Rightarrow> JStr (py_str v)
          | None \<Rightarrow> JStr (py_str (JObj obj)))"
  by (induction ks) (auto simp add: contains_obj getitem_obj and_then_Inr split: option.splits)

lemma fields_agree: "text_fields = spec_field_order"
  by (simp add: text_fields_def spec_field_order_def)

lemma from_choice_priority:
  "from_choice c =
     Inr (case obj_field c ''text'' of
            Some t \<Rightarrow> Some t
          | None \<Rightarrow> (case obj_field c ''message'' of Some m \<Rightarrow> obj_field m ''content'' | None \<Rightarrow> None))
   \<or> (\<exists>m. from_choice c = Inl (TypeError m))"
proof (cases c)
  case (JObj ckvs)
  show ?thesis
  proof (cases "map_of ckvs ''text''")
    case (Some t)
    then show ?thesis
      by (simp add: JObj from_choice_def contains_obj getitem_obj and_then_Inr obj_field_def)
  next
    case None
    note nt = this
    show ?thesis
    proof (cases "map_of ckvs ''message''")
      case None
      then show ?thesis using nt
        by (simp add: JObj from_choice_def contains_obj getitem_obj and_then_Inr obj_field_def)
    next
      case (Some m)
      with nt have fc: "from_choice (JObj ckvs) =
          and_then (py_contains ''content'' m) (\<lambda>has.
            if \<not> has then Inr None
            else and_then (py_getitem m ''content'') (\<lambda>c. Inr (Some c)))"
        by (simp add: from_choice_def contains_obj getitem_obj and_then_Inr)
      have rhs: "(case obj_field c ''text'' of
            Some t \<Rightarrow> Some t
          | None \<Rightarrow> (case obj_field c ''message'' of Some m \<Rightarrow> obj_field m ''content'' | None \<Rightarrow> None))
          = obj_field m ''content''"
        using nt Some by (simp add: JObj obj_field_def)
      have "from_choice (JObj ckvs) = Inr (obj_field m ''content'')
            \<or> (\<exists>msg. from_choice (JObj ckvs) = Inl (TypeError msg))"
        unfolding fc
      proof (cases m)
        case (JObj mkvs)
        then show "and_then (py_contains ''content'' m) (\<lambda>has.
            if \<not> has then Inr None
            else and_then (py_getitem m ''content'') (\<lambda>c. Inr (Some c))) = Inr (obj_field m ''content'')
            \<or> (\<exists>msg. and_then (py_contains ''content'' m) (\<lambda>has.
            if \<not> has then Inr None
            else and_then (py_getitem m ''content'') (\<lambda>c. Inr (Some c))) = Inl (TypeError msg))"
          by (auto simp add: contains_obj getitem_obj and_then_def obj_field_def
              split: option.splits)
      qed (auto simp add: and_then_def obj_field_def py_contains_def py_getitem_def)
      then show ?thesis using rhs by (simp add: JObj)
    qed
  qed
qed (auto simp add: from_choice_def py_contains_def py_getitem_def and_then_def obj_field_def)

lemma extract_priority_or_type_error:
  "extract_generated_text (JObj obj) = Inr (spec_extract obj)
   \<or> (\<exists>m. extract_generated_text (JObj obj) = Inl (TypeError m))"
proof (cases "\<exists>c cs. map_of obj ''choices'' = Some (JArr (c # cs))")
  case False
  then have fc: "first_choice (JObj obj) = Inr None"
    by (auto simp add: first_choice_obj split: option.splits json.splits list.splits)
  from False have sc: "spec_choice_text obj = None"
    by (auto simp add: spec_choice_text_def split: option.splits json.splits list.splits)
  show ?thesis
    by (simp add: extract_generated_text_def fc sc spec_extract_def and_then_Inr
        probe_fields_obj fields_agree)
next
  case True
  then obtain c cs where ch: "map_of obj ''choices'' = Some (JArr (c # cs))" by blast
  have fc: "first_choice (JObj obj) = Inr (Some c)"
    by (simp add: first_choice_obj ch)
  from from_choice_priority [of c] show ?thesis
  proof
    assume "\<exists>m. from_choice c = Inl (TypeError m)"
    then show ?thesis
      by (auto simp add: extract_generated_text_def fc and_then_def)
  next
    assume a: "from_choice c =
     Inr (case obj_field c ''text'' of
            Some t \<Rightarrow> Some t
          | None \<Rightarrow> (case obj_field c ''message'' of Some m \<Rightarrow> obj_field m ''content'' | None \<Rightarrow> None))"
    have "extract_generated_text (JObj obj) = Inr (spec_extract obj)"
      by (simp add: extract_generated_text_def fc a and_then_Inr spec_extract_def
          spec_choice_text_def ch probe_fields_obj fields_agree split: option.splits)
    then show ?thesis ..
  qed
qed

subsection \<open>Keyword binding and the payload as a map\<close>

lemma bind_kwargs_ok: "binds params kw \<Longrightarrow> bind_kwargs f params kw = Inr kw"
proof -
  assume "binds params kw"
  then have "filter (\<lambda>k. k \<in> set params) (map fst kw) = []"
    by (auto simp add: binds_def filter_empty_conv map_of_eq_None_iff)
  then show ?thesis by (simp add: bind_kwargs_def)
qed

lemma bind_kwargs_clash:
  "\<not> binds params kw \<Longrightarrow> \<exists>m. bind_kwargs f params kw = Inl (TypeError m)"
proof -
  assume "\<not> binds params kw"
  then have "filter (\<lambda>k. k \<in> set params) (map fst kw) \<noteq> []"
    by (auto simp add: binds_def filter_empty_conv map_of_eq_None_iff)
  then show ?thesis by (auto simp add: bind_kwargs_def split: list.splits)
qed

lemma build_payload_ok:
  "binds [''self'', ''prompt'', ''stop''] kw \<Longrightarrow>
   build_payload self prompt stop kw = Inr (build_payload_body self prompt stop kw)"
  by (simp add: build_payload_def bind_kwargs_ok and_then_def)

lemma build_payload_clash:
  "\<not> binds [''self'', ''prompt'', ''stop''] kw \<Longrightarrow>
   \<exists>m. build_payload self prompt stop kw = Inl (TypeError m)"
proof -
  assume "\<not> binds [''self'', ''prompt'', ''stop''] kw"
  from bind_kwargs_clash [OF this, of "''E2ENetworksLLM._build_payload''"]
  show ?thesis by (auto simp add: build_payload_def and_then_def)
qed

lemma build_payload_Inr:
  "build_payload self prompt stop kw = Inr pl \<Longrightarrow>
   binds [''self'', ''prompt'', ''stop''] kw \<and> pl = build_payload_body self prompt stop kw"
proof -
  assume a: "build_payload self prompt stop kw = Inr pl"
  have b: "binds [''self'', ''prompt'', ''stop''] kw"
  proof (rule ccontr)
    assume "\<not> binds [''self'', ''prompt'', ''stop''] kw"
    from build_payload_clash [OF this, of self prompt stop] a show False by auto
  qed
  with a show ?thesis by (simp add: build_payload_ok)
qed

lemma map_of_add_extra:
  "map_of (add_extra pl (k', v')) k =
     (case map_of pl k of
        Some v \<Rightarrow> Some v
      | None \<Rightarrow>
          if k = k' \<and> k' \<notin> set [''temperature'', ''max_tokens'', ''top_p''] then Some v'
          else None)"
  unfolding add_extra_def has_key
  by (auto simp add: update_conv' split: option.splits)

lemma map_of_extras:
  "map_of (foldl add_extra pl kw) k =
     (case map_of pl k of
        Some v \<Rightarrow> Some v
      | None \<Rightarrow>
          if k \<in> set [''temperature'', ''max_tokens'', ''top_p''] then None else map_of kw k)"
proof (induction kw arbitrary: pl)
  case Nil
  then show ?case by (simp split: option.splits)
next
  case (Cons kv kw)
  obtain k' v' where kv: "kv = (k', v')" by (cases kv)
  show ?case
    unfolding kv foldl_Cons Cons.IH map_of_add_extra
    by (auto split: option.splits)
qed

lemma body_eq:
  "build_payload_body self prompt stop kw = foldl add_extra (base_payload self prompt stop kw) kw"
  by (simp add: build_payload_body_def base_payload_def Let_def split: option.splits)

lemma body_lookup:
  "map_of (build_payload_body self prompt stop kw) k =
     (if k = ''prompt'' then Some (JStr prompt)
      else if k = ''temperature'' then
        Some (kwargs_get kw ''temperature'' (JFloat (temperature self)))
      else if k = ''max_tokens'' then
        Some (kwargs_get kw ''max_tokens'' (JInt (max_tokens self)))
      else if k = ''top_p'' then Some (kwargs_get kw ''top_p'' (JFloat (top_p self)))
      else if k = ''model'' then Some (JStr (model_name self))
      else if k = ''stop'' \<and> stop \<noteq> None \<and> stop \<noteq> Some [] then
        Some (JArr (map JStr (case stop of Some xs \<Rightarrow> xs | None \<Rightarrow> [])))
      else map_of kw k)"
  unfolding body_eq map_of_extras
  by (auto simp add: base_payload_def split: option.splits)

subsection \<open>Construction\<close>



lemma construction_with_credentials:
  "llm_init no_environ
     (default_args\<lparr>arg_endpoint_url := Some ''https://llm.example/generate'',
                    arg_api_key := Some ''secret''\<rparr>) [] =
   Inl (ValidationError ''E2ENetworksLLM''
          [(''endpoint_url'', ''field required (type=value_error.missing)''),
           (''api_key'', ''field required (type=value_error.missing)'')])"
  by code_simp

subsection \<open>The call\<close>

lemma binds_mono: "binds ps kw \<Longrightarrow> set qs \<subseteq> set ps \<Longrightarrow> binds qs kw"
  by (auto simp add: binds_def)

lemma call_unfold:
  assumes "binds [''self'', ''prompt'', ''stop'', ''run_manager''] kw"
  shows "call remote self prompt stop kw w =
     (case remote w \<lparr>req_url = endpoint_url self, req_headers = get_headers self,
                      req_json = build_payload_body self prompt stop kw,
                      req_timeout = timeout self\<rparr> of
        (posted, w') \<Rightarrow>
          (case and_then posted read_response of
             Inl e \<Rightarrow> (Inr (JStr (''Error: '' @ error_msg self e)), w')
           | Inr generated_text \<Rightarrow> (Inr generated_text, w')))"
proof -
  from assms have b: "binds [''self'', ''prompt'', ''stop''] kw"
    by (rule binds_mono) auto
  show ?thesis
    by (simp add: call_def bind_kwargs_ok [OF assms] build_payload_ok [OF b])
qed

lemma raise_for_status_error:
  "400 \<le> resp_status_code r \<Longrightarrow> resp_status_code r < 600 \<Longrightarrow>
   \<exists>m. raise_for_status r = Inl (HTTPError (resp_status_code r) (resp_text r) m)"
  by (simp add: raise_for_status_def)

lemma raise_for_status_other:
  "resp_status_code r < 400 \<or> 600 \<le> resp_status_code r \<Longrightarrow> raise_for_status r = Inr ()"
  by (auto simp add: raise_for_status_def)

lemma read_response_fails:
  assumes "(400 \<le> resp_status_code r \<and> resp_status_code r < 600)
           \<or> (\<exists>e. resp_json r = Inl e)
           \<or> (\<exists>v e. resp_json r = Inr v \<and> extract_generated_text v = Inl e)"
  shows "\<exists>e. read_response r = Inl e"
proof (cases "raise_for_status r")
  case (Inl e)
  then show ?thesis by (simp add: read_response_def and_then_def)
next
  case (Inr u)
  then have "\<not> (400 \<le> resp_status_code r \<and> resp_status_code r < 600)"
    by (auto simp add: raise_for_status_def split: if_splits)
  with assms Inr show ?thesis
    by (auto simp add: read_response_def and_then_def)
qed

subsection \<open>Single entries of the payload\<close>

lemma body_has_stop:
  "(''stop'' \<in> set (map fst (build_payload_body self prompt stop kw))) =
     ((stop \<noteq> None \<and> stop \<noteq> Some []) \<or> map_of kw ''stop'' \<noteq> None)"
  unfolding has_key body_lookup by simp

lemma update_temperature:
  "AList.update ''temperature'' t (build_payload_body self prompt stop []) =
   build_payload_body self prompt stop [(''temperature'', t)]"
  by (simp add: build_payload_body_def kwargs_get_def add_extra_def Let_def split: option.splits)

lemma add_extra_keeps_key:
  "k \<in> set (map fst pl) \<Longrightarrow> k \<in> set (map fst (add_extra pl kv))"
  unfolding has_key by (cases kv) (auto simp add: map_of_add_extra split: option.splits)

lemma add_extra_present: "fst kv \<in> set (map fst pl) \<Longrightarrow> add_extra pl kv = pl"
  by (simp add: add_extra_def)

lemma extras_skip_present:
  "k \<in> set (map fst pl) \<Longrightarrow>
   foldl add_extra pl (filter (\<lambda>kv. fst kv \<noteq> k) kw) = foldl add_extra pl kw"
proof (induction kw arbitrary: pl)
  case Nil
  then show ?case by simp
next
  case (Cons kv kw)
  show ?case
  proof (cases "fst kv = k")
    case True
    with Cons.prems have "add_extra pl kv = pl" by (simp add: add_extra_present)
    with True Cons.IH [OF Cons.prems] show ?thesis by simp
  next
    case False
    from Cons.prems have "k \<in> set (map fst (add_extra pl kv))" by (rule add_extra_keeps_key)
    from Cons.IH [OF this] False show ?thesis by simp
  qed
qed

lemma map_of_filter_other:
  "k' \<noteq> k \<Longrightarrow> map_of (filter (\<lambda>kv. fst kv \<noteq> k) kw) k' = map_of kw k'"
  by (induction kw) auto

lemma body_drops_model:
  "build_payload_body self prompt stop (filter (\<lambda>kv. fst kv \<noteq> ''model'') kw) =
   build_payload_body self prompt stop kw"
proof -
  have "base_payload self prompt stop (filter (\<lambda>kv. fst kv \<noteq> ''model'') kw) =
        base_payload self prompt stop kw"
    by (simp add: base_payload_def kwargs_get_def map_of_filter_other)
  moreover have "''model'' \<in> set (map fst (base_payload self prompt stop kw))"
    by (simp add: base_payload_def)
  ultimately show ?thesis
    unfolding body_eq by (simp add: extras_skip_present)
qed

lemma binds_filter_other:
  "k \<notin> set params \<Longrightarrow> binds params (filter (\<lambda>kv. fst kv \<noteq> k) kw) = binds params kw"
  unfolding binds_def by (metis map_of_filter_other)

section \<open>The claims\<close>

text \<open>
  Claim C1 at an input on which the code departs from it. The claim gives the priority of
  the response normalizer: the \<^verbatim>\<open>text\<close> of the first \<^verbatim>\<open>choices\<close> element, else the
  \<^verbatim>\<open>content\<close> of its \<^verbatim>\<open>message\<close>, otherwise the first field present among seven names.
  Where the \<^verbatim>\<open>message\<close> of the first element is the string \<open>no content\<close>, there is no
  \<^verbatim>\<open>content\<close> to return and the priority gives the top-level \<^verbatim>\<open>response\<close>, \<open>D\<close>; the code
  takes \<^verbatim>\<open>"content" in choice["message"]\<close> for a substring test, which succeeds, indexes the
  string with \<^verbatim>\<open>"content"\<close> and raises a \<^verbatim>\<open>TypeError\<close>.
\<close>

theorem normalizer_priority_failing_input:
  "extract_generated_text
     (JObj [(''choices'', JArr [JObj [(''message'', JStr ''no content'')]]),
            (''response'', JStr ''D'')]) =
     Inl (TypeError (''string indices must be integers, not 'str'' @ [CHR 0x27]))
   \<and> spec_extract [(''choices'', JArr [JObj [(''message'', JStr ''no content'')]]),
                    (''response'', JStr ''D'')] = JStr ''D''"
  by code_simp




text \<open>
  Claim C3, as amended. When the remote-request step of \<^verbatim>\<open>E2ENetworksLLM._call\<close> fails
  (\<^verbatim>\<open>requests.post\<close> raises, as on a timeout or a transport failure; the response has a
  status from 400 to 599; its body is not valid JSON; or the normalizer raises on the
  decoded body), the call returns a string that starts with \<open>Error:\<close> and raises nothing.
  When the \<^verbatim>\<open>try\<close> block of \<^verbatim>\<open>E2ELLM._call\<close> in \<^verbatim>\<open>app.py\<close> raises an exception \<open>e\<close>, the call
  returns a string that starts with \<open>Error\<close> and a space (\<open>Error calling E2E LLM:\<close> or
  \<open>Error parsing response:\<close>) if \<open>e\<close> is a \<^verbatim>\<open>RequestException\<close> or a \<^verbatim>\<open>JSONDecodeError\<close>,
  and lets every other exception out.
\<close>

theorem call_absorbs_failures:
  assumes "binds [''self'', ''prompt'', ''stop'', ''run_manager''] kw"
      and "remote w \<lparr>req_url = endpoint_url self, req_headers = get_headers self,
                      req_json = build_payload_body self prompt stop kw,
                      req_timeout = timeout self\<rparr> = (posted, w')"
      and "(\<exists>e. posted = Inl e)
           \<or> (\<exists>r. posted = Inr r
                  \<and> ((400 \<le> resp_status_code r \<and> resp_status_code r < 600)
                     \<or> (\<exists>e. resp_json r = Inl e)
                     \<or> (\<exists>v e. resp_json r = Inr v \<and> extract_generated_text v = Inl e)))"
      and "remote' v \<lparr>req_url = app_endpoint_url app,
                       req_headers = [(''Content-Type'', ''application/json''),
                                      (''Authorization'', ''Bearer '' @ app_api_key app)],
                       req_json = app_payload app prompt' stop', req_timeout = 30\<rparr> = (posted', v')"
      and "and_then posted' app_read_response = Inl e'"
  shows "(\<exists>s. call remote self prompt stop kw w = (Inr (JStr s), w') \<and> prefix ''Error:'' s)
         \<and> (\<exists>s. app_call remote' app prompt' stop' v =
                  ((if is_request_exception e' \<or> (\<exists>m. e' = JSONDecodeError m)
                    then Inr (JStr s) else Inl e'), v')
                \<and> prefix ''Error '' s)"
proof -
  from assms(3) have "\<exists>e. and_then posted read_response = Inl e"
  proof
    assume "\<exists>e. posted = Inl e"
    then show ?thesis by (auto simp add: and_then_def)
  next
    assume "\<exists>r. posted = Inr r
                  \<and> ((400 \<le> resp_status_code r \<and> resp_status_code r < 600)
                     \<or> (\<exists>e. resp_json r = Inl e)
                     \<or> (\<exists>v e. resp_json r = Inr v \<and> extract_generated_text v = Inl e))"
    then obtain r where p: "posted = Inr r"
      and f: "(400 \<le> resp_status_code r \<and> resp_status_code r < 600)
                     \<or> (\<exists>e. resp_json r = Inl e)
                     \<or> (\<exists>v e. resp_json r = Inr v \<and> extract_generated_text v = Inl e)"
      by blast
    from read_response_fails [OF f] show ?thesis by (simp add: p and_then_def)
  qed
  then obtain e where e: "and_then posted read_response = Inl e" by blast
  have a: "call remote self prompt stop kw w = (Inr (JStr (''Error: '' @ error_msg self e)), w')"
    by (simp add: call_unfold [OF assms(1)] assms(2) e)
  have "app_call remote' app prompt' stop' v = (app_except e', v')"
    using assms(4,5) by (simp add: app_call_def)
  moreover have "\<exists>s. app_except e' =
        (if is_request_exception e' \<or> (\<exists>m. e' = JSONDecodeError m) then Inr (JStr s) else Inl e')
        \<and> prefix ''Error '' s"
    by (cases e') (auto simp add: app_except_def is_request_exception_def)
  ultimately show ?thesis using a by auto
qed

text \<open>
  Status 429 with the body \<open>rate limited\<close> gives an \<open>Error:\<close> string with both; on the
  endpoint where every request times out, the wrapper names the timeout and the class of
  \<^verbatim>\<open>app.py\<close> answers with its own wording.
\<close>

theorem call_absorbs_failures_witness:
  "call rate_limited example_llm ''hi'' None [] () =
       (Inr (JStr ''Error: HTTP error 429: rate limited''), ())
   \<and> call timing_out example_llm ''hi'' None [] () =
       (Inr (JStr ''Error: Request to E2E LLM timed out after 30 seconds''), ())
   \<and> app_call timing_out (app_init no_environ) ''hi'' None () =
       (Inr (JStr ''Error calling E2E LLM: Read timed out.''), ())"
proof -
  have b: "binds [''self'', ''prompt'', ''stop'', ''run_manager''] []"
    by (simp add: binds_def)
  have r: "rate_limited ()
             \<lparr>req_url = endpoint_url example_llm, req_headers = get_headers example_llm,
              req_json = build_payload_body example_llm ''hi'' None [],
              req_timeout = timeout example_llm\<rparr> =
           (Inr \<lparr>resp_status_code = 429, resp_reason = ''Too Many Requests'',
                 resp_url = endpoint_url example_llm, resp_text = ''rate limited'',
                 resp_json = Inl (RequestException ''Expecting value: line 1 column 1 (char 0)'')\<rparr>,
            ())"
    by (simp add: rate_limited_def)
  have x: "(\<exists>e. (Inr \<lparr>resp_status_code = 429, resp_reason = ''Too Many Requests'',
                 resp_url = endpoint_url example_llm, resp_text = ''rate limited'',
                 resp_json = Inl (RequestException ''Expecting value: line 1 column 1 (char 0)'')\<rparr>
               :: exc + response) = Inl e)
           \<or> (\<exists>r. (Inr \<lparr>resp_status_code = 429, resp_reason = ''Too Many Requests'',
                 resp_url = endpoint_url example_llm, resp_text = ''rate limited'',
                 resp_json = Inl (RequestException ''Expecting value: line 1 column 1 (char 0)'')\<rparr>
               :: exc + response) = Inr r
                  \<and> ((400 \<le> resp_status_code r \<and> resp_status_code r < 600)
                     \<or> (\<exists>e. resp_json r = Inl e)
                     \<or> (\<exists>v e. resp_json r = Inr v \<and> extract_generated_text v = Inl e)))"
    by simp
  have r': "timing_out ()
              \<lparr>req_url = app_endpoint_url (app_init no_environ),
               req_headers = [(''Content-Type'', ''application/json''),
                              (''Authorization'', ''Bearer '' @ app_api_key (app_init no_environ))],
               req_json = app_payload (app_init no_environ) ''hi'' None, req_timeout = 30\<rparr> =
            (Inl (Timeout ''Read timed out.''), ())"
    by (simp add: timing_out_def)
  have x': "and_then (Inl (Timeout ''Read timed out.'')) app_read_response =
              Inl (Timeout ''Read timed out.'')"
    by (simp add: and_then_def)
  have c: "call rate_limited example_llm ''hi'' None [] () =
       (Inr (JStr ''Error: HTTP error 429: rate limited''), ())"
    by code_simp
  have d: "call timing_out example_llm ''hi'' None [] () =
       (Inr (JStr ''Error: Request to E2E LLM timed out after 30 seconds''), ())"
    by code_simp
  have a: "app_call timing_out (app_init no_environ) ''hi'' None () =
       (Inr (JStr ''Error calling E2E LLM: Read timed out.''), ())"
    by code_simp
  show ?thesis
    using call_absorbs_failures
      [where kw = "[]" and remote = rate_limited and w = "()" and self = example_llm
         and prompt = "''hi''" and stop = None and w' = "()" and remote' = timing_out
         and v = "()" and app = "app_init no_environ" and prompt' = "''hi''" and stop' = None
         and posted' = "Inl (Timeout ''Read timed out.'')" and v' = "()"
         and e' = "Timeout ''Read timed out.''", OF b r x r' x'] c d a
    by simp
qed

text \<open>
  Claim C3 as stated fails twice. A response with status 300, not a 2xx status, and a JSON
  body is no failure for \<^verbatim>\<open>raise_for_status\<close>: the wrapper returns the text of the body, not
  an error string. And on a timeout the \<^verbatim>\<open>_call\<close> of \<^verbatim>\<open>app.py\<close> returns a string that does
  not start with \<open>Error:\<close>.
\<close>

theorem call_absorbs_failures_counterexample:
  "call multiple_choices example_llm ''hi'' None [] () = (Inr (JStr ''pick one''), ())
   \<and> \<not> prefix ''Error:'' ''pick one''
   \<and> app_call timing_out (app_init no_environ) ''hi'' None () =
       (Inr (JStr ''Error calling E2E LLM: Read timed out.''), ())
   \<and> \<not> prefix ''Error:'' ''Error calling E2E LLM: Read timed out.''"
  by code_simp

text \<open>
  Claim C4, as amended. The payload that \<^verbatim>\<open>_build_payload\<close> returns has the key \<^verbatim>\<open>stop\<close>
  exactly when the stop list is present and non-empty, and then holds the list as given;
  with no list or an empty one the key is absent. The payload of \<^verbatim>\<open>E2ELLM._call\<close> in
  \<^verbatim>\<open>app.py\<close> has the key \<^verbatim>\<open>stop\<close> always: \<^verbatim>\<open>None\<close> when no list is given, the list otherwise,
  empty or not.
\<close>

theorem stop_key:
  assumes "build_payload self prompt stop kw = Inr payload"
  shows "(''stop'' \<in> set (map fst payload) \<longleftrightarrow> (\<exists>xs. stop = Some xs \<and> xs \<noteq> []))
         \<and> (\<forall>xs. stop = Some xs \<and> xs \<noteq> [] \<longrightarrow>
               map_of payload ''stop'' = Some (JArr (map JStr xs)))
         \<and> map_of (app_payload app prompt stop) ''stop'' =
             Some (case stop of None \<Rightarrow> JNull | Some xs \<Rightarrow> JArr (map JStr xs))"
proof -
  from build_payload_Inr [OF assms]
  have b: "binds [''self'', ''prompt'', ''stop''] kw"
    and p: "payload = build_payload_body self prompt stop kw" by simp_all
  from b have k: "map_of kw ''stop'' = None" by (simp add: binds_def)
  have 1: "''stop'' \<in> set (map fst payload) \<longleftrightarrow> (\<exists>xs. stop = Some xs \<and> xs \<noteq> [])"
    unfolding p body_has_stop using k by (cases stop) auto
  have 2: "\<forall>xs. stop = Some xs \<and> xs \<noteq> [] \<longrightarrow>
               map_of payload ''stop'' = Some (JArr (map JStr xs))"
    unfolding p body_lookup by simp
  have 3: "map_of (app_payload app prompt stop) ''stop'' =
             Some (case stop of None \<Rightarrow> JNull | Some xs \<Rightarrow> JArr (map JStr xs))"
    by (simp add: app_payload_def)
  from 1 2 3 show ?thesis by blast
qed

text \<open>
  With the list \<open>END\<close> the key is there as given; with the empty list or no list the
  payload has the five fixed keys only.
\<close>

theorem stop_key_witness:
  "build_payload example_llm ''hi'' (Some [''END'']) [] =
     Inr [(''prompt'', JStr ''hi''), (''temperature'', JFloat ''0.7''), (''max_tokens'', JInt 1000),
          (''top_p'', JFloat ''0.9''), (''model'', JStr ''e2e-llm''),
          (''stop'', JArr [JStr ''END''])]
   \<and> build_payload example_llm ''hi'' (Some []) [] =
     Inr [(''prompt'', JStr ''hi''), (''temperature'', JFloat ''0.7''), (''max_tokens'', JInt 1000),
          (''top_p'', JFloat ''0.9''), (''model'', JStr ''e2e-llm'')]
   \<and> build_payload example_llm ''hi'' None [] = build_payload example_llm ''hi'' (Some []) []"
proof -
  have a: "build_payload example_llm ''hi'' (Some [''END'']) [] =
     Inr [(''prompt'', JStr ''hi''), (''temperature'', JFloat ''0.7''), (''max_tokens'', JInt 1000),
          (''top_p'', JFloat ''0.9''), (''model'', JStr ''e2e-llm''),
          (''stop'', JArr [JStr ''END''])]"
    by code_simp
  have b: "build_payload example_llm ''hi'' (Some []) [] =
     Inr [(''prompt'', JStr ''hi''), (''temperature'', JFloat ''0.7''), (''max_tokens'', JInt 1000),
          (''top_p'', JFloat ''0.9''), (''model'', JStr ''e2e-llm'')]"
    by code_simp
  have c: "build_payload example_llm ''hi'' None [] = build_payload example_llm ''hi'' (Some []) []"
    by code_simp
  show ?thesis
    using stop_key [OF a] a b c by simp
qed

text \<open>
  Claim C4 as stated fails for the class of \<^verbatim>\<open>app.py\<close>: called without a stop list, its
  payload holds \<^verbatim>\<open>stop\<close> with the value \<^verbatim>\<open>None\<close>.
\<close>

theorem stop_key_counterexample:
  "app_payload (app_init no_environ) ''hi'' None =
     [(''prompt'', JStr ''hi''), (''temperature'', JFloat ''0.7''), (''max_tokens'', JInt 1000),
      (''stop'', JNull)]"
  by code_simp

text \<open>
  Claim C5 at an input on which the code departs from it. The claim: an object without a
  matching \<^verbatim>\<open>choices\<close> shape and without any of the seven field names is returned as the
  string form of the whole object. The object whose \<^verbatim>\<open>choices\<close> list holds \<^verbatim>\<open>null\<close> is such
  an object, with the string form shown; the code evaluates \<^verbatim>\<open>"text" in choice\<close> on
  \<^verbatim>\<open>None\<close> and raises a \<^verbatim>\<open>TypeError\<close>.
\<close>

theorem unrecognized_shape_failing_input:
  "extract_generated_text (JObj [(''choices'', JArr [JNull])]) =
     Inl (TypeError ''argument of type 'NoneType' is not iterable'')
   \<and> spec_extract [(''choices'', JArr [JNull])] = JStr ''{'choices': [None]}''"
  by code_simp

text \<open>
  Claim C6, as amended. In every payload that \<^verbatim>\<open>_build_payload\<close> returns, an override whose
  key is none of \<^verbatim>\<open>temperature\<close>, \<^verbatim>\<open>max_tokens\<close>, \<^verbatim>\<open>top_p\<close> and is not \<^verbatim>\<open>model\<close> is present
  under its key with its value. (A payload is returned only when no override is named
  \<^verbatim>\<open>self\<close>, \<^verbatim>\<open>prompt\<close> or \<^verbatim>\<open>stop\<close>, the parameters of the method.)
\<close>

theorem extra_keys_pass_through:
  assumes "build_payload self prompt stop kw = Inr payload"
      and "map_of kw k = Some v"
      and "k \<notin> set [''temperature'', ''max_tokens'', ''top_p'']"
      and "k \<noteq> ''model''"
  shows "map_of payload k = Some v"
proof -
  from build_payload_Inr [OF assms(1)]
  have b: "binds [''self'', ''prompt'', ''stop''] kw"
    and p: "payload = build_payload_body self prompt stop kw" by simp_all
  from b assms(2) have "k \<noteq> ''prompt''" "k \<noteq> ''stop''" by (auto simp add: binds_def)
  with assms(2,3,4) show ?thesis unfolding p body_lookup by simp
qed

text \<open>
  The override \<^verbatim>\<open>seed\<close> is appended to the payload; \<^verbatim>\<open>top_p\<close> replaces the default in place.
\<close>

theorem extra_keys_pass_through_witness:
  "build_payload example_llm ''hi'' None [(''seed'', JInt 42), (''top_p'', JFloat ''0.5'')] =
     Inr [(''prompt'', JStr ''hi''), (''temperature'', JFloat ''0.7''), (''max_tokens'', JInt 1000),
          (''top_p'', JFloat ''0.5''), (''model'', JStr ''e2e-llm''), (''seed'', JInt 42)]
   \<and> map_of [(''prompt'', JStr ''hi''), (''temperature'', JFloat ''0.7''), (''max_tokens'', JInt 1000),
          (''top_p'', JFloat ''0.5''), (''model'', JStr ''e2e-llm''), (''seed'', JInt 42)] ''seed'' =
       Some (JInt 42)"
proof -
  have a: "build_payload example_llm ''hi'' None [(''seed'', JInt 42), (''top_p'', JFloat ''0.5'')] =
     Inr [(''prompt'', JStr ''hi''), (''temperature'', JFloat ''0.7''), (''max_tokens'', JInt 1000),
          (''top_p'', JFloat ''0.5''), (''model'', JStr ''e2e-llm''), (''seed'', JInt 42)]"
    by code_simp
  have b: "map_of [(''seed'', JInt 42), (''top_p'', JFloat ''0.5'')] ''seed'' = Some (JInt 42)"
    by simp
  have c: "''seed'' \<notin> set [''temperature'', ''max_tokens'', ''top_p'']" by simp
  have d: "''seed'' \<noteq> ''model''" by simp
  show ?thesis
    using extra_keys_pass_through [OF a b c d] a by simp
qed

text \<open>
  Claim C6 as stated fails at the key \<^verbatim>\<open>model\<close>: it is none of the three known fields, yet
  the payload keeps the model name of the instance, since the loop skips a key that the
  payload already has.
\<close>

theorem extra_keys_counterexample:
  "build_payload example_llm ''hi'' None [(''model'', JStr ''other'')] =
     Inr [(''prompt'', JStr ''hi''), (''temperature'', JFloat ''0.7''), (''max_tokens'', JInt 1000),
          (''top_p'', JFloat ''0.9''), (''model'', JStr ''e2e-llm'')]"
  by code_simp

text \<open>
  Claim C7. In every payload that \<^verbatim>\<open>_build_payload\<close> returns, \<^verbatim>\<open>temperature\<close>,
  \<^verbatim>\<open>max_tokens\<close> and \<^verbatim>\<open>top_p\<close> hold the override where one is supplied and the default of the
  instance otherwise; and the payload built with the single override \<^verbatim>\<open>temperature\<close> is the
  payload built without overrides, with the value under \<^verbatim>\<open>temperature\<close> replaced and every
  other entry, and the order, unchanged.
\<close>

theorem overrides_take_precedence:
  assumes "build_payload self prompt stop kw = Inr payload"
  shows "map_of payload ''temperature'' =
           Some (case map_of kw ''temperature'' of Some v \<Rightarrow> v | None \<Rightarrow> JFloat (temperature self))
         \<and> map_of payload ''max_tokens'' =
           Some (case map_of kw ''max_tokens'' of Some v \<Rightarrow> v | None \<Rightarrow> JInt (max_tokens self))
         \<and> map_of payload ''top_p'' =
           Some (case map_of kw ''top_p'' of Some v \<Rightarrow> v | None \<Rightarrow> JFloat (top_p self))
         \<and> (\<exists>p0. build_payload self prompt stop [] = Inr p0
                 \<and> build_payload self prompt stop [(''temperature'', t)] =
                     Inr (AList.update ''temperature'' t p0))"
proof -
  from build_payload_Inr [OF assms]
  have p: "payload = build_payload_body self prompt stop kw" by simp
  have 1: "map_of payload ''temperature'' =
           Some (case map_of kw ''temperature'' of Some v \<Rightarrow> v | None \<Rightarrow> JFloat (temperature self))"
    unfolding p body_lookup by (simp add: kwargs_get_def)
  have 2: "map_of payload ''max_tokens'' =
           Some (case map_of kw ''max_tokens'' of Some v \<Rightarrow> v | None \<Rightarrow> JInt (max_tokens self))"
    unfolding p body_lookup by (simp add: kwargs_get_def)
  have 3: "map_of payload ''top_p'' =
           Some (case map_of kw ''top_p'' of Some v \<Rightarrow> v | None \<Rightarrow> JFloat (top_p self))"
    unfolding p body_lookup by (simp add: kwargs_get_def)
  have b0: "binds [''self'', ''prompt'', ''stop''] []" by (simp add: binds_def)
  have b1: "binds [''self'', ''prompt'', ''stop''] [(''temperature'', t)]" by (simp add: binds_def)
  have 4: "\<exists>p0. build_payload self prompt stop [] = Inr p0
                 \<and> build_payload self prompt stop [(''temperature'', t)] =
                     Inr (AList.update ''temperature'' t p0)"
    by (simp add: build_payload_ok [OF b0] build_payload_ok [OF b1] update_temperature)
  from 1 2 3 4 show ?thesis by blast
qed

text \<open>
  On the instance with default \<open>0.7\<close>, the override \<open>0.2\<close> changes that one entry.
\<close>

theorem overrides_take_precedence_witness:
  "build_payload example_llm ''hi'' None [(''temperature'', JFloat ''0.2'')] =
     Inr [(''prompt'', JStr ''hi''), (''temperature'', JFloat ''0.2''), (''max_tokens'', JInt 1000),
          (''top_p'', JFloat ''0.9''), (''model'', JStr ''e2e-llm'')]
   \<and> build_payload example_llm ''hi'' None [] =
     Inr [(''prompt'', JStr ''hi''), (''temperature'', JFloat ''0.7''), (''max_tokens'', JInt 1000),
          (''top_p'', JFloat ''0.9''), (''model'', JStr ''e2e-llm'')]"
proof -
  have a: "build_payload example_llm ''hi'' None [(''temperature'', JFloat ''0.2'')] =
     Inr [(''prompt'', JStr ''hi''), (''temperature'', JFloat ''0.2''), (''max_tokens'', JInt 1000),
          (''top_p'', JFloat ''0.9''), (''model'', JStr ''e2e-llm'')]"
    by code_simp
  have b: "build_payload example_llm ''hi'' None [] =
     Inr [(''prompt'', JStr ''hi''), (''temperature'', JFloat ''0.7''), (''max_tokens'', JInt 1000),
          (''top_p'', JFloat ''0.9''), (''model'', JStr ''e2e-llm'')]"
    by code_simp
  show ?thesis
    using overrides_take_precedence [OF a, of "JFloat ''0.2''"] a b by simp
qed

text \<open>
  Claim C8 at an input on which the code departs from it. The claim: a batch returns one
  entry per prompt, in order, whatever the single calls return. For a batch of three on the
  endpoint that answers the second request with a first choice whose \<^verbatim>\<open>text\<close> is \<^verbatim>\<open>null\<close>,
  \<^verbatim>\<open>_call\<close> returns \<^verbatim>\<open>None\<close> for the second prompt (the normalizer returns the \<^verbatim>\<open>text\<close> of a
  choice as it is), \<^verbatim>\<open>Generation(text=None)\<close> raises, and the exception leaves \<^verbatim>\<open>_generate\<close>
  after two requests: no list is returned.
\<close>

theorem batch_failing_input:
  "generate null_text_second example_llm [''a'', ''b'', ''c''] None [] 0 =
     (Inl (ValidationError ''Generation''
             [(''text'', ''none is not an allowed value (type=type_error.none.not_allowed)'')]), 2)"
  by code_simp

text \<open>
  Claim C9, as amended. In every payload that \<^verbatim>\<open>_build_payload\<close> returns, \<^verbatim>\<open>prompt\<close> is the
  prompt argument and \<^verbatim>\<open>model\<close> the model name of the instance, and an override named
  \<^verbatim>\<open>model\<close> is silently dropped: the payload is the one built without it. An override named
  \<^verbatim>\<open>prompt\<close> or \<^verbatim>\<open>stop\<close> is not dropped: it names a parameter that is already bound, and the
  call raises a \<^verbatim>\<open>TypeError\<close> instead of returning a payload.
\<close>

theorem reserved_payload_fields:
  "(build_payload self prompt stop kw = Inr payload \<longrightarrow>
      map_of payload ''prompt'' = Some (JStr prompt)
      \<and> map_of payload ''model'' = Some (JStr (model_name self))
      \<and> build_payload self prompt stop (filter (\<lambda>kv. fst kv \<noteq> ''model'') kw) = Inr payload)
   \<and> (map_of kw ''prompt'' \<noteq> None \<or> map_of kw ''stop'' \<noteq> None \<longrightarrow>
        (\<exists>m. build_payload self prompt stop kw = Inl (TypeError m)))"
proof -
  have 1: "map_of payload ''prompt'' = Some (JStr prompt)
      \<and> map_of payload ''model'' = Some (JStr (model_name self))
      \<and> build_payload self prompt stop (filter (\<lambda>kv. fst kv \<noteq> ''model'') kw) = Inr payload"
    if a: "build_payload self prompt stop kw = Inr payload"
  proof -
    from build_payload_Inr [OF a]
    have b: "binds [''self'', ''prompt'', ''stop''] kw"
      and p: "payload = build_payload_body self prompt stop kw" by simp_all
    from b have "binds [''self'', ''prompt'', ''stop''] (filter (\<lambda>kv. fst kv \<noteq> ''model'') kw)"
      by (simp add: binds_filter_other)
    then have "build_payload self prompt stop (filter (\<lambda>kv. fst kv \<noteq> ''model'') kw) = Inr payload"
      by (simp add: build_payload_ok body_drops_model p)
    then show ?thesis unfolding p body_lookup by simp
  qed
  have 2: "\<exists>m. build_payload self prompt stop kw = Inl (TypeError m)"
    if "map_of kw ''prompt'' \<noteq> None \<or> map_of kw ''stop'' \<noteq> None"
  proof -
    from that have "\<not> binds [''self'', ''prompt'', ''stop''] kw" by (auto simp add: binds_def)
    then show ?thesis by (rule build_payload_clash)
  qed
  from 1 2 show ?thesis by blast
qed

text \<open>
  The override \<^verbatim>\<open>model\<close> leaves no trace in the payload; the override \<^verbatim>\<open>prompt\<close> is
  rejected.
\<close>

theorem reserved_payload_fields_witness:
  "build_payload example_llm ''hi'' None [(''model'', JStr ''other''), (''seed'', JInt 1)] =
     Inr [(''prompt'', JStr ''hi''), (''temperature'', JFloat ''0.7''), (''max_tokens'', JInt 1000),
          (''top_p'', JFloat ''0.9''), (''model'', JStr ''e2e-llm''), (''seed'', JInt 1)]
   \<and> build_payload example_llm ''hi'' None [(''seed'', JInt 1)] =
     build_payload example_llm ''hi'' None [(''model'', JStr ''other''), (''seed'', JInt 1)]
   \<and> build_payload example_llm ''hi'' None [(''prompt'', JStr ''x'')] =
     Inl (TypeError (''E2ENetworksLLM._build_payload() got multiple values for argument 'prompt'' @ [CHR 0x27]))"
proof -
  have a: "build_payload example_llm ''hi'' None [(''model'', JStr ''other''), (''seed'', JInt 1)] =
     Inr [(''prompt'', JStr ''hi''), (''temperature'', JFloat ''0.7''), (''max_tokens'', JInt 1000),
          (''top_p'', JFloat ''0.9''), (''model'', JStr ''e2e-llm''), (''seed'', JInt 1)]"
    by code_simp
  have b: "build_payload example_llm ''hi'' None [(''seed'', JInt 1)] =
     build_payload example_llm ''hi'' None [(''model'', JStr ''other''), (''seed'', JInt 1)]"
    by code_simp
  have c: "build_payload example_llm ''hi'' None [(''prompt'', JStr ''x'')] =
     Inl (TypeError (''E2ENetworksLLM._build_payload() got multiple values for argument 'prompt'' @ [CHR 0x27]))"
    by code_simp
  show ?thesis
    using reserved_payload_fields
      [of example_llm "''hi''" None "[(''model'', JStr ''other''), (''seed'', JInt 1)]"
          "[(''prompt'', JStr ''hi''), (''temperature'', JFloat ''0.7''), (''max_tokens'', JInt 1000),
          (''top_p'', JFloat ''0.9''), (''model'', JStr ''e2e-llm''), (''seed'', JInt 1)]"] a b c
    by simp
qed

text \<open>
  Claim C9 as stated fails for an override named \<^verbatim>\<open>stop\<close>: the call does not drop it
  silently, it raises.
\<close>

theorem reserved_payload_fields_counterexample:
  "build_payload example_llm ''hi'' None [(''stop'', JArr [JStr ''END''])] =
     Inl (TypeError (''E2ENetworksLLM._build_payload() got multiple values for argument 'stop'' @ [CHR 0x27]))"
  by code_simp

text \<open>
  Claim C10 at an input on which the code departs from it. The claim: the normalizer
  returns a value on every parsed response, also where the first element of \<^verbatim>\<open>choices\<close>
  is not an object. Where that element is the number 5, the code evaluates
  \<^verbatim>\<open>"text" in choice\<close> on it and raises a \<^verbatim>\<open>TypeError\<close>.
\<close>

theorem normalizer_total_failing_input:
  "extract_generated_text (JObj [(''choices'', JArr [JInt 5])]) =
     Inl (TypeError ''argument of type 'int' is not iterable'')"
  by code_simp

end
